theory Spec2Isabelle
  imports Main "HOL-Library.Multiset"
begin

section \<open>JavaScript values used by the game\<close>

text \<open>
  A value that may be \<^verbatim>\<open>undefined\<close> is an \<open>option\<close>: \<open>None\<close> is \<^verbatim>\<open>undefined\<close>.
  Numbers sent by clients and array positions are integers. Reading an array outside
  its bounds gives \<^verbatim>\<open>undefined\<close>; reading it at \<^verbatim>\<open>undefined\<close> gives
  \<^verbatim>\<open>undefined\<close> as well.
\<close>

definition js_get :: "'a list \<Rightarrow> int \<Rightarrow> 'a option" where
  "js_get xs i = (if 0 \<le> i \<and> i < int (length xs) then Some (xs ! nat i) else None)"

definition js_get_at :: "'a list \<Rightarrow> int option \<Rightarrow> 'a option" where
  "js_get_at xs i = (case i of None \<Rightarrow> None | Some n \<Rightarrow> js_get xs n)"

text \<open>The remainder operator \<^verbatim>\<open>%\<close> takes the sign of the dividend.\<close>

definition js_rem :: "int \<Rightarrow> int \<Rightarrow> int" where
  "js_rem a b = sgn a * (\<bar>a\<bar> mod \<bar>b\<bar>)"

section \<open>server/question/HotSeatQuestion.js\<close>

definition FINAL_ANSWER_WAIT_TIMES :: "int list" where
  "FINAL_ANSWER_WAIT_TIMES =
     [1000, 1000, 1000, 1000, 1500, 3000, 3000, 3000, 3000, 4000, 5000, 5000, 5000, 5000, 7500]"

definition getSafeHavenIndex :: "int \<Rightarrow> int" where
  "getSafeHavenIndex failedIndex =
     (let oneIndexed = max 0 failedIndex + 1
      in oneIndexed - js_rem oneIndexed 5 - 1)"

text \<open>
  Modelled from the spec: the base class of server/question/Question.js is not among the
  sources. Of its fields, HotSeatQuestion.js reads \<open>orderedChoices\<close> (the choices in true
  rank order, index 0 the correct one), \<open>shuffledChoices\<close> (the same choices in the order
  presented) and \<open>revealedChoices\<close> (indexed by presented position; an entry that is
  \<^verbatim>\<open>undefined\<close> or missing is a choice that is not shown).
\<close>

record 'a Question =
  orderedChoices :: "'a list"
  shuffledChoices :: "'a list"
  revealedChoices :: "'a option list"

record 'a HotSeatQuestion = "'a Question" +
  correctChoiceRevealedForShowHost :: bool
  correctChoiceRevealedForAll :: bool
  questionIndex :: int

text \<open>
  The loop of \<^verbatim>\<open>getShuffledChoice\<close>: the first argument is the part of
  \<open>shuffledChoices\<close> from position \<open>i\<close> on, the second is
  \<^verbatim>\<open>orderedChoices[orderedIndex]\<close>.
\<close>

fun getShuffledChoice_from :: "'a list \<Rightarrow> 'a option \<Rightarrow> int \<Rightarrow> int option" where
  "getShuffledChoice_from [] wanted i = None"
| "getShuffledChoice_from (c # cs) wanted i =
     (if Some c = wanted then Some i else getShuffledChoice_from cs wanted (i + 1))"

definition getShuffledChoice :: "('a, 'b) HotSeatQuestion_scheme \<Rightarrow> int \<Rightarrow> int option" where
  "getShuffledChoice q orderedIndex =
     getShuffledChoice_from (shuffledChoices q) (js_get (orderedChoices q) orderedIndex) 0"

definition answerIsCorrect :: "('a, 'b) HotSeatQuestion_scheme \<Rightarrow> int option \<Rightarrow> bool" where
  "answerIsCorrect q answer = (js_get_at (shuffledChoices q) answer = js_get (orderedChoices q) 0)"

definition getCorrectChoice :: "('a, 'b) HotSeatQuestion_scheme \<Rightarrow> int option" where
  "getCorrectChoice q = getShuffledChoice q 0"

text \<open>
  \<^verbatim>\<open>revealedChoices[this.getShuffledChoice(index)] !== undefined\<close>: holes, entries
  outside the array and the position \<^verbatim>\<open>undefined\<close> all read as \<^verbatim>\<open>undefined\<close>.
\<close>

definition revealedAt :: "('a, 'b) HotSeatQuestion_scheme \<Rightarrow> int \<Rightarrow> bool" where
  "revealedAt q index =
     (case js_get_at (revealedChoices q) (getShuffledChoice q index) of
        None \<Rightarrow> False
      | Some entry \<Rightarrow> entry \<noteq> None)"

text \<open>The \<^verbatim>\<open>forEach\<close> over \<open>orderedChoices\<close>, pushing onto \<open>remaining\<close>.\<close>

fun remaining_forEach ::
  "('a, 'b) HotSeatQuestion_scheme \<Rightarrow> 'a list \<Rightarrow> int \<Rightarrow> int list \<Rightarrow> int list" where
  "remaining_forEach q [] index remaining = remaining"
| "remaining_forEach q (orderedChoice # rest) index remaining =
     remaining_forEach q rest (index + 1)
       (if revealedAt q index then remaining @ [index] else remaining)"

definition getRemainingOrderedChoiceIndexes :: "('a, 'b) HotSeatQuestion_scheme \<Rightarrow> int list" where
  "getRemainingOrderedChoiceIndexes q = remaining_forEach q (orderedChoices q) 0 []"

text \<open>
  Modelled from the spec: the object that \<^verbatim>\<open>toCompressed\<close> returns; the part of it
  built by the absent Question.js is the question's state for the network, here the
  revealed choices and the made choices. A field that may be missing is an \<open>option\<close>:
  \<open>None\<close> is "no such field", and \<open>Some None\<close> in \<open>correctChoice\<close> is the field holding
  \<^verbatim>\<open>undefined\<close>.
\<close>

record 'a CompressedQuestion =
  compressedRevealedChoices :: "'a option list"
  madeChoices :: "int option list"
  correctChoice :: "int option option"
  choiceLocked :: "bool option"

text \<open>
  Modelled from the spec: \<^verbatim>\<open>Question.toCompressed(madeChoices)\<close> of the absent
  Question.js, the base projection that \<^verbatim>\<open>super.toCompressed\<close> calls. It carries the
  revealed choices and the made choices it is given, and has neither a \<open>correctChoice\<close>
  nor a \<open>choiceLocked\<close> field.
\<close>

definition Question_toCompressed ::
  "('a, 'b) Question_scheme \<Rightarrow> int option list \<Rightarrow> 'a CompressedQuestion" where
  "Question_toCompressed q choices =
     \<lparr>compressedRevealedChoices = revealedChoices q, madeChoices = choices,
      correctChoice = None, choiceLocked = None\<rparr>"

definition revealCorrectChoiceForShowHost ::
  "('a, 'b) HotSeatQuestion_scheme \<Rightarrow> ('a, 'b) HotSeatQuestion_scheme" where
  "revealCorrectChoiceForShowHost q = q\<lparr>correctChoiceRevealedForShowHost := True\<rparr>"

definition toCompressed ::
  "('a, 'b) HotSeatQuestion_scheme \<Rightarrow> int option \<Rightarrow> bool \<Rightarrow> 'a CompressedQuestion" where
  "toCompressed q madeChoice showCorrectChoice =
     (let compressed = Question_toCompressed q [madeChoice];
          compressed = (if showCorrectChoice
                        then compressed\<lparr>correctChoice := Some (getCorrectChoice q)\<rparr>
                        else compressed)
      in compressed\<lparr>choiceLocked := Some (madeChoice \<noteq> None)\<rparr>)"

section \<open>server/question/Choices.js\<close>

text \<open>The four slots \<^verbatim>\<open>A\<close>, \<^verbatim>\<open>B\<close>, \<^verbatim>\<open>C\<close>, \<^verbatim>\<open>D\<close> are the numbers 0 to 3.\<close>

definition MAX_CHOICES :: nat where
  "MAX_CHOICES = 4"

definition VALID_CHOICES :: "int list" where
  "VALID_CHOICES = [0, 1, 2, 3]"

definition isValidChoice :: "int option \<Rightarrow> bool" where
  "isValidChoice choice = (case choice of None \<Rightarrow> False | Some c \<Rightarrow> c \<in> set VALID_CHOICES)"

section \<open>The collaborators of GameServer\<close>

text \<open>
  An action offered to a human: the object literal
  \<^verbatim>\<open>{socketEvent: ..., text: ...}\<close> of GameServer.js; \<open>label\<close> is the source's
  \<^verbatim>\<open>text\<close>. The only timeout function that GameServer.js builds is the closure
  calling \<^verbatim>\<open>this[data.nextSocketEvent]\<close>; \<open>InvokeHandler\<close> holds that event name.
\<close>

record Action =
  socketEvent :: string
  label :: string

datatype TimeoutFunc = InvokeHandler string

text \<open>
  Modelled from the spec: the class of the absent server/game/StepDialog.js. A StepDialog
  keeps the four arguments of its constructor: the actions, the timeout function, its
  delay in milliseconds, and the header.
\<close>

record StepDialog =
  actions :: "Action list"
  timeoutFunc :: "TimeoutFunc option"
  timeoutMs :: "int option"
  header :: "string option"

text \<open>
  Modelled from the spec: a player of the absent Player.js, with the per-player answers
  that the handlers use: the fastest-finger ordering submitted so far and the one
  hot-seat choice, \<^verbatim>\<open>undefined\<close> while unanswered.
\<close>

record Player =
  username :: string
  fastestFingerChoices :: "int list"
  hotSeatChoice :: "int option"

text \<open>
  Modelled from the spec: \<^verbatim>\<open>Player.chooseFastestFinger\<close> of the absent Player.js. By
  the spec's invariants a stored choice is one of the four slots and a choice that is
  locked in is not changed: a valid slot that the player has not chosen yet is appended
  to the ordering, and anything else leaves the player as it is.
\<close>

definition chooseFastestFinger :: "int option \<Rightarrow> Player \<Rightarrow> Player" where
  "chooseFastestFinger choice p =
     (case choice of
        None \<Rightarrow> p
      | Some c \<Rightarrow>
          if isValidChoice choice \<and> c \<notin> set (fastestFingerChoices p)
          then p\<lparr>fastestFingerChoices := fastestFingerChoices p @ [c]\<rparr>
          else p)"

text \<open>
  Modelled from the spec: \<^verbatim>\<open>Player.chooseHotSeat\<close> of the absent Player.js. By the
  spec's invariant a stored choice is one of the four slots: a valid slot is stored, and
  anything else leaves the player as it is.
\<close>

definition chooseHotSeat :: "int option \<Rightarrow> Player \<Rightarrow> Player" where
  "chooseHotSeat choice p = (if isValidChoice choice then p\<lparr>hotSeatChoice := choice\<rparr> else p)"

text \<open>
  Modelled from the spec: \<^verbatim>\<open>PlayerMap.getPlayerBySocket\<close> of the absent PlayerMap.js.
  The player map is the list of the connected sockets with their players; a socket that
  is not in it has no player.
\<close>

definition getPlayerBySocket :: "(nat \<times> Player) list \<Rightarrow> nat \<Rightarrow> Player option" where
  "getPlayerBySocket players socket = map_of players socket"

text \<open>
  Modelled from the spec: a method call on a player changes the player object in place,
  for the player map and for every reference to the player; \<open>setPlayer\<close> stores the
  changed player under its socket.
\<close>

definition setPlayer :: "nat \<Rightarrow> Player \<Rightarrow> (nat \<times> Player) list \<Rightarrow> (nat \<times> Player) list" where
  "setPlayer socket p players =
     map (\<lambda>(s, old). if s = socket then (s, p) else (s, old)) players"

text \<open>
  Modelled from the spec: the question of the absent FastestFingerQuestion.js, a Question
  with the start of its answer clock. The time itself is not modelled, only whether the
  clock has been started.
\<close>

record 'a FastestFingerQuestion = "'a Question" +
  answerClockStarted :: bool

text \<open>
  Modelled from the spec: \<^verbatim>\<open>revealAllChoices\<close> of the absent Question.js shows every
  presented choice.
\<close>

definition revealAllChoices ::
  "('a, 'b) Question_scheme \<Rightarrow> ('a, 'b) Question_scheme" where
  "revealAllChoices q = q\<lparr>revealedChoices := map Some (shuffledChoices q)\<rparr>"

text \<open>
  Modelled from the spec: \<^verbatim>\<open>markStartTime\<close> of the absent Question.js starts the
  answer clock.
\<close>

definition markStartTime :: "'a FastestFingerQuestion \<Rightarrow> 'a FastestFingerQuestion" where
  "markStartTime q = q\<lparr>answerClockStarted := True\<rparr>"

text \<open>
  Modelled from the spec: the class of the absent server/game/ServerState.js. Of the
  snapshot that the spec lists, the handlers below use the show host and the hot-seat
  player (references to players of the player map, here their sockets), the two
  StepDialog slots, the two active questions and the hot-seat question index.
\<close>

record ServerState =
  showHost :: "nat option"
  hotSeatPlayer :: "nat option"
  showHostStepDialog :: "StepDialog option"
  hotSeatStepDialog :: "StepDialog option"
  fastestFingerQuestion :: "string FastestFingerQuestion option"
  hotSeatQuestion :: "string HotSeatQuestion option"
  hotSeatQuestionIndex :: int

text \<open>
  Modelled from the spec: \<^verbatim>\<open>ServerState.playerShowHostPresent\<close> of the absent
  ServerState.js. A human show host is present when one is assigned.
\<close>

definition playerShowHostPresent :: "ServerState \<Rightarrow> bool" where
  "playerShowHostPresent s = (showHost s \<noteq> None)"

text \<open>
  Modelled from the spec: \<^verbatim>\<open>ServerState.setShowHostStepDialog\<close> of the absent
  ServerState.js stores the dialog, or \<^verbatim>\<open>undefined\<close>, in the show host's slot.
\<close>

definition setShowHostStepDialog :: "StepDialog option \<Rightarrow> ServerState \<Rightarrow> ServerState" where
  "setShowHostStepDialog dialog s = s\<lparr>showHostStepDialog := dialog\<rparr>"

text \<open>
  Modelled from the spec: \<^verbatim>\<open>ServerState.setHotSeatStepDialog\<close> of the absent
  ServerState.js stores the dialog, or \<^verbatim>\<open>undefined\<close>, in the hot-seat player's slot.
\<close>

definition setHotSeatStepDialog :: "StepDialog option \<Rightarrow> ServerState \<Rightarrow> ServerState" where
  "setHotSeatStepDialog dialog s = s\<lparr>hotSeatStepDialog := dialog\<rparr>"

text \<open>
  Modelled from the spec: \<^verbatim>\<open>ServerState.allPlayersDoneWithFastestFinger\<close> of the absent
  ServerState.js. Every contestant has submitted: every player but the show host has an
  ordering of \<open>MAX_CHOICES\<close> choices.
\<close>

definition allPlayersDoneWithFastestFinger :: "ServerState \<Rightarrow> (nat \<times> Player) list \<Rightarrow> bool" where
  "allPlayersDoneWithFastestFinger s players =
     list_all (\<lambda>(socket, p). showHost s = Some socket
                 \<or> length (fastestFingerChoices p) = MAX_CHOICES) players"

section \<open>server/game/GameServer.js\<close>

definition SOCKET_EVENTS :: "string list" where
  "SOCKET_EVENTS =
     [''showHostShowFastestFingerRules'',
      ''showHostCueFastestFingerQuestion'',
      ''showHostShowFastestFingerQuestionText'',
      ''showHostCueFastestFingerThreeStrikes'',
      ''showHostRevealFastestFingerQuestionChoices'',
      ''contestantFastestFingerChoose'',
      ''fastestFingerTimeUp'',
      ''showHostCueFastestFingerAnswerRevealAudio'',
      ''showHostRevealFastestFingerAnswer'',
      ''showHostRevealFastestFingerResults'',
      ''showHostAcceptHotSeatPlayer'',
      ''showHostCueHotSeatRules'',
      ''showHostHighlightLifeline'',
      ''showHostCueHotSeatQuestion'',
      ''showHostShowHotSeatQuestionText'',
      ''showHostRevealHotSeatChoice'',
      ''showHostAskTheAudience'',
      ''showHostDoFiftyFifty'',
      ''showHostPhoneAFriend'',
      ''showHostRevealHotSeatQuestionVictory'',
      ''showHostRevealHotSeatQuestionLoss'',
      ''showHostShowScores'',
      ''contestantChoose'',
      ''contestantSetConfidence'',
      ''hotSeatChoose'',
      ''hotSeatFinalAnswer'',
      ''hotSeatUseLifeline'',
      ''hotSeatConfirmLifeline'',
      ''hotSeatPickPhoneAFriend'']"

text \<open>
  The methods that \<^verbatim>\<open>class GameServer\<close> defines, in the order of the source (a
  leading underscore is part of the source's name).
\<close>

definition GameServer_methods :: "string list" where
  "GameServer_methods =
     [''_getOneChoiceHostStepDialog'',
      ''_getYesNoDialog'',
      ''_updateGame'',
      ''activateListenersForSocket'',
      ''deactivateListenersForSocket'',
      ''endGame'',
      ''gameOptionsAreValid'',
      ''isInGame'',
      ''startGame'',
      ''updateGameForSocket'',
      ''showHostShowFastestFingerRules'',
      ''showHostCueFastestFingerQuestion'',
      ''showHostShowFastestFingerQuestionText'',
      ''showHostCueFastestFingerThreeStrikes'',
      ''showHostRevealFastestFingerQuestionChoices'',
      ''contestantFastestFingerChoose'',
      ''fastestFingerTimeUp'',
      ''showHostCueFastestFingerAnswerRevealAudio'',
      ''showHostRevealFastestFingerAnswer'',
      ''showHostRevealFastestFingerResults'',
      ''showHostAcceptHotSeatPlayer'',
      ''showHostCueHotSeatRules'',
      ''showHostCueHotSeatQuestion'',
      ''showHostShowHotSeatQuestionText'',
      ''showHostRevealHotSeatChoice'',
      ''hotSeatChoose'',
      ''contestantChoose'',
      ''hotSeatFinalAnswer'',
      ''showHostRevealHotSeatQuestionVictory'',
      ''showHostRevealHotSeatQuestionVictory_Continuation'']"

text \<open>
  Calling a member that is \<^verbatim>\<open>undefined\<close>, or reading a member of
  \<^verbatim>\<open>undefined\<close>, throws a TypeError; no handler catches it.
\<close>

datatype js_error = TypeError

text \<open>
  What the listener that \<^verbatim>\<open>activateListenersForSocket\<close> registers for an event
  name does with a message, \<^verbatim>\<open>this[socketEvent](socket, data)\<close>: it calls
  the method of that name, and throws when the class defines none.
\<close>

definition listenerCalls :: "string \<Rightarrow> js_error + string" where
  "listenerCalls event =
     (if event \<in> set GameServer_methods then Inr event else Inl TypeError)"

text \<open>
  \<^verbatim>\<open>activateListenersForSocket\<close> registers one such listener for each name in
  \<open>SOCKET_EVENTS\<close>.
\<close>

definition activateListenersForSocket :: "(string \<times> (js_error + string)) list" where
  "activateListenersForSocket = map (\<lambda>event. (event, listenerCalls event)) SOCKET_EVENTS"

text \<open>
  The state of a game server. The first four fields are the fields of the class (the two
  question sessions are left out: no handler below asks them for a question). The other
  four are what the handlers do to their environment: the timeouts pending in the
  runtime (handle, callback and delay; \<^verbatim>\<open>setTimeout\<close> hands out a fresh handle,
  \<^verbatim>\<open>clearTimeout\<close> drops the timeout of a handle and ignores any other value), the
  lines given to \<^verbatim>\<open>Logger.logInfo\<close>, and the \<^verbatim>\<open>updateGame\<close> messages sent.
\<close>

datatype Callback = Call_showHostRevealFastestFingerQuestionChoices | Call_fastestFingerTimeUp

datatype LogLine = LogPhase string | LogChoice string "int option"

datatype Emission = UpdateAll "string option" | UpdateSocket nat "string option"

record GameServer =
  playerMap :: "(nat \<times> Player) list"
  serverState :: "ServerState option"
  currentForcedTimer :: "nat option"
  currentSocketEvent :: "string option"
  timeouts :: "(nat \<times> Callback \<times> int) list"
  nextHandle :: nat
  logged :: "LogLine list"
  emitted :: "Emission list"

record Data =
  choice :: "int option"

text \<open>
  The runtime's \<^verbatim>\<open>setTimeout\<close>: the timeout becomes pending under the next handle,
  which is what the call returns.
\<close>

definition setTimeout :: "Callback \<Rightarrow> int \<Rightarrow> GameServer \<Rightarrow> GameServer" where
  "setTimeout callback ms g =
     g\<lparr>timeouts := timeouts g @ [(nextHandle g, callback, ms)],
       nextHandle := Suc (nextHandle g)\<rparr>"

text \<open>
  The runtime's \<^verbatim>\<open>clearTimeout\<close>: the timeout of the handle is no longer pending;
  \<^verbatim>\<open>undefined\<close> and a handle with no pending timeout change nothing.
\<close>

definition clearTimeout :: "nat option \<Rightarrow> GameServer \<Rightarrow> GameServer" where
  "clearTimeout handle g = g\<lparr>timeouts := filter (\<lambda>t. Some (fst t) \<noteq> handle) (timeouts g)\<rparr>"

text \<open>
  Modelled from the spec: \<^verbatim>\<open>Logger.logInfo\<close> of the absent server/logging/Logger.js,
  which the spec leaves out as logging: it keeps the lines it is given, in order.
\<close>

definition logInfo :: "LogLine \<Rightarrow> GameServer \<Rightarrow> GameServer" where
  "logInfo line g = g\<lparr>logged := logged g @ [line]\<rparr>"

text \<open>
  The expected data of \<^verbatim>\<open>_getOneChoiceHostStepDialog\<close> (the source's names start
  with an underscore where the class marks a method private). \<open>aiTimeout\<close> may be
  \<^verbatim>\<open>undefined\<close>: \<^verbatim>\<open>hotSeatFinalAnswer\<close> reads it from a table at an index. The
  button messages are the names of the localized strings.
\<close>

record StepData =
  nextSocketEvent :: string
  hostButtonMessage :: string
  aiTimeout :: "int option"

definition getOneChoiceHostStepDialog :: "GameServer \<Rightarrow> StepData \<Rightarrow> js_error + StepDialog" where
  "getOneChoiceHostStepDialog g data =
     (case serverState g of
        None \<Rightarrow> Inl TypeError
      | Some s \<Rightarrow>
          if playerShowHostPresent s
          then Inr \<lparr>actions = [\<lparr>socketEvent = nextSocketEvent data,
                                label = hostButtonMessage data\<rparr>],
                    timeoutFunc = None, timeoutMs = None, header = None\<rparr>
          else Inr \<lparr>actions = [],
                    timeoutFunc = Some (InvokeHandler (nextSocketEvent data)),
                    timeoutMs = aiTimeout data, header = None\<rparr>)"

definition getYesNoDialog :: "string \<Rightarrow> string \<Rightarrow> string \<Rightarrow> StepDialog" where
  "getYesNoDialog yesEvent noEvent hdr =
     \<lparr>actions = [\<lparr>socketEvent = yesEvent, label = ''YES''\<rparr>,
                 \<lparr>socketEvent = noEvent, label = ''NO''\<rparr>],
      timeoutFunc = None, timeoutMs = None, header = Some hdr\<rparr>"

text \<open>
  \<^verbatim>\<open>_updateGame\<close> and \<^verbatim>\<open>updateGameForSocket\<close> send the state to all players and
  to one socket. The compressed client state, which the absent ServerState.js builds, is
  not modelled: an emission records the receiver and the phase name it is built with.
\<close>

definition updateGame :: "GameServer \<Rightarrow> GameServer" where
  "updateGame g = g\<lparr>emitted := emitted g @ [UpdateAll (currentSocketEvent g)]\<rparr>"

definition updateGameForSocket :: "GameServer \<Rightarrow> nat \<Rightarrow> js_error + GameServer" where
  "updateGameForSocket g socket =
     (case serverState g of
        None \<Rightarrow> Inl TypeError
      | Some s \<Rightarrow> Inr (g\<lparr>emitted := emitted g @ [UpdateSocket socket (currentSocketEvent g)]\<rparr>))"

text \<open>
  Installing the one-choice dialog in the show host's slot and broadcasting, as most
  handlers end: \<^verbatim>\<open>this.serverState.setShowHostStepDialog(this._getOneChoiceHostStepDialog(...));
  this._updateGame()\<close>.
\<close>

definition stepWithOneChoiceDialog :: "GameServer \<Rightarrow> StepData \<Rightarrow> js_error + GameServer" where
  "stepWithOneChoiceDialog g data =
     (case serverState g of
        None \<Rightarrow> Inl TypeError
      | Some s \<Rightarrow>
          (case getOneChoiceHostStepDialog g data of
             Inl e \<Rightarrow> Inl e
           | Inr dialog \<Rightarrow>
               Inr (updateGame (g\<lparr>serverState := Some (setShowHostStepDialog (Some dialog) s)\<rparr>))))"

text \<open>The handlers take \<^verbatim>\<open>socket\<close> and \<^verbatim>\<open>data\<close> where they read them.\<close>

definition fastestFingerTimeUp :: "GameServer \<Rightarrow> js_error + GameServer" where
  "fastestFingerTimeUp g =
     (let g = g\<lparr>currentSocketEvent := Some ''fastestFingerTimeUp''\<rparr>;
          g = logInfo (LogPhase ''fastestFingerTimeUp'') g;
          g = clearTimeout (currentForcedTimer g) g
      in stepWithOneChoiceDialog g
           \<lparr>nextSocketEvent = ''showHostCueFastestFingerAnswerRevealAudio'',
            hostButtonMessage = ''CUE_FASTEST_FINGER_ANSWER_REVEAL_AUDIO'',
            aiTimeout = Some 2500\<rparr>)"

definition showHostCueFastestFingerThreeStrikes :: "GameServer \<Rightarrow> js_error + GameServer" where
  "showHostCueFastestFingerThreeStrikes g =
     (let g = g\<lparr>currentSocketEvent := Some ''showHostCueFastestFingerThreeStrikes''\<rparr>;
          g = logInfo (LogPhase ''showHostCueFastestFingerThreeStrikes'') g
      in case serverState g of
           None \<Rightarrow> Inl TypeError
         | Some s \<Rightarrow>
             (let g = updateGame (g\<lparr>serverState := Some (setShowHostStepDialog None s)\<rparr>)
              in Inr ((setTimeout Call_showHostRevealFastestFingerQuestionChoices 2500 g)
                        \<lparr>currentForcedTimer := Some (nextHandle g)\<rparr>)))"

definition showHostRevealFastestFingerQuestionChoices :: "GameServer \<Rightarrow> js_error + GameServer" where
  "showHostRevealFastestFingerQuestionChoices g =
     (let g = g\<lparr>currentSocketEvent := Some ''showHostRevealFastestFingerQuestionChoices''\<rparr>;
          g = logInfo (LogPhase ''showHostRevealFastestFingerQuestionChoices'') g
      in case serverState g of
           None \<Rightarrow> Inl TypeError
         | Some s \<Rightarrow>
             (case fastestFingerQuestion s of
                None \<Rightarrow> Inl TypeError
              | Some q \<Rightarrow>
                  (let s = s\<lparr>fastestFingerQuestion := Some (markStartTime (revealAllChoices q))\<rparr>;
                       g = updateGame (g\<lparr>serverState := Some s\<rparr>)
                   in Inr ((setTimeout Call_fastestFingerTimeUp 10000 g)
                             \<lparr>currentForcedTimer := Some (nextHandle g)\<rparr>))))"

definition contestantFastestFingerChoose :: "GameServer \<Rightarrow> nat \<Rightarrow> Data \<Rightarrow> js_error + GameServer" where
  "contestantFastestFingerChoose g socket data =
     (let g = logInfo (LogChoice ''contestantFastestFingerChoose: '' (choice data)) g
      in case getPlayerBySocket (playerMap g) socket of
           None \<Rightarrow> Inl TypeError
         | Some player \<Rightarrow>
             (let g = g\<lparr>playerMap :=
                          setPlayer socket (chooseFastestFinger (choice data) player) (playerMap g)\<rparr>
              in case updateGameForSocket g socket of
                   Inl e \<Rightarrow> Inl e
                 | Inr g \<Rightarrow>
                     (case serverState g of
                        None \<Rightarrow> Inl TypeError
                      | Some s \<Rightarrow>
                          if allPlayersDoneWithFastestFinger s (playerMap g)
                          then fastestFingerTimeUp g
                          else Inr g)))"

definition hotSeatChoose :: "GameServer \<Rightarrow> Data \<Rightarrow> js_error + GameServer" where
  "hotSeatChoose g data =
     (let g = g\<lparr>currentSocketEvent := Some ''hotSeatChoose''\<rparr>;
          g = logInfo (LogPhase ''hotSeatChoose'') g
      in case serverState g of
           None \<Rightarrow> Inl TypeError
         | Some s \<Rightarrow>
             (case hotSeatPlayer s of
                None \<Rightarrow> Inl TypeError
              | Some seat \<Rightarrow>
                  (case getPlayerBySocket (playerMap g) seat of
                     None \<Rightarrow> Inl TypeError
                   | Some player \<Rightarrow>
                       (let g = g\<lparr>playerMap :=
                                    setPlayer seat (chooseHotSeat (choice data) player) (playerMap g)\<rparr>;
                            dialog = getYesNoDialog ''hotSeatFinalAnswer''
                                       ''showHostRevealHotSeatChoice'' ''HOT_SEAT_FINAL_ANSWER'';
                            s = (if playerShowHostPresent s
                                 then setShowHostStepDialog (Some dialog) s
                                 else setHotSeatStepDialog (Some dialog) s)
                        in Inr (updateGame (g\<lparr>serverState := Some s\<rparr>))))))"

definition contestantChoose :: "GameServer \<Rightarrow> nat \<Rightarrow> Data \<Rightarrow> js_error + GameServer" where
  "contestantChoose g socket data =
     (let g = logInfo (LogChoice ''contestantChoose: '' (choice data)) g
      in case getPlayerBySocket (playerMap g) socket of
           None \<Rightarrow> Inl TypeError
         | Some player \<Rightarrow>
             updateGameForSocket
               (g\<lparr>playerMap := setPlayer socket (chooseHotSeat (choice data) player) (playerMap g)\<rparr>)
               socket)"

text \<open>
  Modelled from the spec: the constant \<^verbatim>\<open>FINAL_ANSWER_WAIT_TIMES\<close> of GameServer.js,
  which it reads from the absent Question.js. It is the table of that name in
  HotSeatQuestion.js, which the spec indexes by the hot-seat question index.
\<close>

definition GameServer_FINAL_ANSWER_WAIT_TIMES :: "int list" where
  "GameServer_FINAL_ANSWER_WAIT_TIMES = FINAL_ANSWER_WAIT_TIMES"

definition hotSeatFinalAnswer :: "GameServer \<Rightarrow> js_error + GameServer" where
  "hotSeatFinalAnswer g =
     (let g = g\<lparr>currentSocketEvent := Some ''hotSeatFinalAnswer''\<rparr>;
          g = logInfo (LogPhase ''hotSeatFinalAnswer'') g
      in case serverState g of
           None \<Rightarrow> Inl TypeError
         | Some s \<Rightarrow>
             (case hotSeatQuestion s of
                None \<Rightarrow> Inl TypeError
              | Some q \<Rightarrow>
                  (let q = revealCorrectChoiceForShowHost q;
                       s = s\<lparr>hotSeatQuestion := Some q\<rparr>;
                       g = g\<lparr>serverState := Some s\<rparr>
                   in case hotSeatPlayer s of
                        None \<Rightarrow> Inl TypeError
                      | Some seat \<Rightarrow>
                          (case getPlayerBySocket (playerMap g) seat of
                             None \<Rightarrow> Inl TypeError
                           | Some player \<Rightarrow>
                               if answerIsCorrect q (hotSeatChoice player)
                               then stepWithOneChoiceDialog g
                                      \<lparr>nextSocketEvent = ''showHostRevealHotSeatQuestionVictory'',
                                       hostButtonMessage = ''HOT_SEAT_VICTORY'',
                                       aiTimeout = js_get GameServer_FINAL_ANSWER_WAIT_TIMES
                                                     (hotSeatQuestionIndex s)\<rparr>
                               else stepWithOneChoiceDialog g
                                      \<lparr>nextSocketEvent = ''showHostRevealHotSeatQuestionLoss'',
                                       hostButtonMessage = ''HOT_SEAT_LOSS'',
                                       aiTimeout = js_get GameServer_FINAL_ANSWER_WAIT_TIMES
                                                     (hotSeatQuestionIndex s)\<rparr>))))"

text \<open>
  The events of the game that are modelled: the messages of the handlers above, and a
  pending timeout expiring, which removes it and runs its callback. A handle with no
  pending timeout does not expire.
\<close>

datatype Event =
    Msg_showHostCueFastestFingerThreeStrikes
  | Msg_showHostRevealFastestFingerQuestionChoices
  | Msg_contestantFastestFingerChoose nat Data
  | Msg_fastestFingerTimeUp
  | Msg_hotSeatChoose Data
  | Msg_contestantChoose nat Data
  | Msg_hotSeatFinalAnswer
  | TimeoutExpires nat

definition runCallback :: "Callback \<Rightarrow> GameServer \<Rightarrow> js_error + GameServer" where
  "runCallback callback g =
     (case callback of
        Call_showHostRevealFastestFingerQuestionChoices \<Rightarrow>
          showHostRevealFastestFingerQuestionChoices g
      | Call_fastestFingerTimeUp \<Rightarrow> fastestFingerTimeUp g)"

definition timeoutExpires :: "nat \<Rightarrow> GameServer \<Rightarrow> js_error + GameServer" where
  "timeoutExpires handle g =
     (case map_of (timeouts g) handle of
        None \<Rightarrow> Inr g
      | Some (callback, ms) \<Rightarrow>
          runCallback callback (g\<lparr>timeouts := filter (\<lambda>t. fst t \<noteq> handle) (timeouts g)\<rparr>))"

fun step :: "Event \<Rightarrow> GameServer \<Rightarrow> js_error + GameServer" where
  "step Msg_showHostCueFastestFingerThreeStrikes g = showHostCueFastestFingerThreeStrikes g"
| "step Msg_showHostRevealFastestFingerQuestionChoices g =
     showHostRevealFastestFingerQuestionChoices g"
| "step (Msg_contestantFastestFingerChoose socket data) g =
     contestantFastestFingerChoose g socket data"
| "step Msg_fastestFingerTimeUp g = fastestFingerTimeUp g"
| "step (Msg_hotSeatChoose data) g = hotSeatChoose g data"
| "step (Msg_contestantChoose socket data) g = contestantChoose g socket data"
| "step Msg_hotSeatFinalAnswer g = hotSeatFinalAnswer g"
| "step (TimeoutExpires handle) g = timeoutExpires handle g"

fun run :: "Event list \<Rightarrow> GameServer \<Rightarrow> js_error + GameServer" where
  "run [] g = Inr g"
| "run (e # es) g = (case step e g of Inl err \<Rightarrow> Inl err | Inr g' \<Rightarrow> run es g')"

section \<open>Timeouts and the log\<close>

text \<open>
  A handle is pending while the runtime holds a timeout for it. It is stale when it has
  been handed out and no timeout is pending for it. \<open>handlesAdvance\<close> relates the state
  before and after a handler: handles are only handed out upwards, and the only handle
  that can have become pending is the next one. \<open>timeUps\<close> counts how often the
  time-up phase has fired, by its log line.
\<close>

definition pending :: "nat \<Rightarrow> GameServer \<Rightarrow> bool" where
  "pending handle g = (handle \<in> set (map fst (timeouts g)))"

definition stale :: "nat \<Rightarrow> GameServer \<Rightarrow> bool" where
  "stale handle g = (handle < nextHandle g \<and> \<not> pending handle g)"

definition handlesAdvance :: "GameServer \<Rightarrow> GameServer \<Rightarrow> bool" where
  "handlesAdvance g g' =
     (nextHandle g \<le> nextHandle g'
      \<and> set (map fst (timeouts g')) \<subseteq> insert (nextHandle g) (set (map fst (timeouts g))))"

definition timeUps :: "GameServer \<Rightarrow> nat" where
  "timeUps g = count_list (logged g) (LogPhase ''fastestFingerTimeUp'')"

text \<open>Fastest-finger submissions arriving one after the other.\<close>

fun submissions :: "(nat \<times> Data) list \<Rightarrow> GameServer \<Rightarrow> js_error + GameServer" where
  "submissions [] g = Inr g"
| "submissions ((socket, data) # rest) g =
     (case contestantFastestFingerChoose g socket data of
        Inl e \<Rightarrow> Inl e
      | Inr g' \<Rightarrow> submissions rest g')"

text \<open>The dialog that \<^verbatim>\<open>fastestFingerTimeUp\<close> installs.\<close>

definition timeUpDialog :: "ServerState \<Rightarrow> StepDialog" where
  "timeUpDialog s =
     (if playerShowHostPresent s
      then \<lparr>actions = [\<lparr>socketEvent = ''showHostCueFastestFingerAnswerRevealAudio'',
                        label = ''CUE_FASTEST_FINGER_ANSWER_REVEAL_AUDIO''\<rparr>],
            timeoutFunc = None, timeoutMs = None, header = None\<rparr>
      else \<lparr>actions = [],
            timeoutFunc = Some (InvokeHandler ''showHostCueFastestFingerAnswerRevealAudio''),
            timeoutMs = Some 2500, header = None\<rparr>)"

section \<open>Example games\<close>

text \<open>
  A question at index 4 whose first two presented choices are shown, and the same
  question before any choice is shown.
\<close>

definition capitals :: "string HotSeatQuestion" where
  "capitals =
     \<lparr>orderedChoices = [''Paris'', ''Rome'', ''Oslo'', ''Bern''],
      shuffledChoices = [''Rome'', ''Bern'', ''Paris'', ''Oslo''],
      revealedChoices = [Some ''Rome'', Some ''Bern''],
      correctChoiceRevealedForShowHost = False,
      correctChoiceRevealedForAll = False,
      questionIndex = 4\<rparr>"

definition capitals_fresh :: "string HotSeatQuestion" where
  "capitals_fresh = capitals\<lparr>revealedChoices := []\<rparr>"

text \<open>
  A game of two players without a show host. In \<open>studio\<close> the first player is in the hot
  seat at question index 4 and has chosen slot 0, which is wrong. \<open>quiz\<close> is the same
  game about to reveal the fastest-finger choices. In \<open>overdue\<close> the answers are being
  revealed while the second player still lacks a choice.
\<close>

definition ann :: Player where
  "ann = \<lparr>username = ''ann'', fastestFingerChoices = [], hotSeatChoice = Some 0\<rparr>"

definition bob :: Player where
  "bob = \<lparr>username = ''bob'', fastestFingerChoices = [], hotSeatChoice = None\<rparr>"

definition ranking :: "string FastestFingerQuestion" where
  "ranking =
     \<lparr>orderedChoices = [''Mercury'', ''Venus'', ''Earth'', ''Mars''],
      shuffledChoices = [''Earth'', ''Mars'', ''Mercury'', ''Venus''],
      revealedChoices = [],
      answerClockStarted = False\<rparr>"

definition studio_state :: ServerState where
  "studio_state =
     \<lparr>showHost = None, hotSeatPlayer = Some 1,
      showHostStepDialog = None, hotSeatStepDialog = None,
      fastestFingerQuestion = Some ranking, hotSeatQuestion = Some capitals,
      hotSeatQuestionIndex = 4\<rparr>"

definition studio :: GameServer where
  "studio =
     \<lparr>playerMap = [(1, ann), (2, bob)], serverState = Some studio_state,
      currentForcedTimer = None, currentSocketEvent = Some ''showHostRevealHotSeatChoice'',
      timeouts = [], nextHandle = 0, logged = [], emitted = []\<rparr>"

definition hosted :: GameServer where
  "hosted = studio\<lparr>serverState := Some (studio_state\<lparr>showHost := Some 2\<rparr>)\<rparr>"

definition cue :: StepData where
  "cue = \<lparr>nextSocketEvent = ''showHostCueFastestFingerQuestion'',
          hostButtonMessage = ''CUE_FASTEST_FINGER_MUSIC'', aiTimeout = Some 5000\<rparr>"

definition quiz :: GameServer where
  "quiz = studio\<lparr>currentSocketEvent := Some ''showHostCueFastestFingerThreeStrikes''\<rparr>"

definition submit :: "nat \<Rightarrow> int \<Rightarrow> nat \<times> Data" where
  "submit socket c = (socket, \<lparr>choice = Some c\<rparr>)"

definition overdue :: GameServer where
  "overdue =
     \<lparr>playerMap = [(1, ann\<lparr>fastestFingerChoices := [2, 3, 0, 1]\<rparr>),
                   (2, bob\<lparr>fastestFingerChoices := [2, 0, 3]\<rparr>)],
      serverState = Some studio_state,
      currentForcedTimer = Some 0,
      currentSocketEvent = Some ''showHostRevealFastestFingerAnswer'',
      timeouts = [], nextHandle = 1, logged = [], emitted = []\<rparr>"

text \<open>
  The early completion, state by state: \<open>quiz_revealed\<close> after the choices are revealed
  and the 10-second timeout is armed, \<open>quiz_waiting\<close> after the seven \<open>early\<close>
  submissions, when only the second player lacks a choice, and \<open>quiz_done\<close> after that
  choice has arrived.
\<close>

definition quiz_revealed :: GameServer where
  "quiz_revealed =
     quiz\<lparr>serverState := Some (studio_state\<lparr>fastestFingerQuestion :=
               Some (ranking\<lparr>revealedChoices :=
                              [Some ''Earth'', Some ''Mars'', Some ''Mercury'', Some ''Venus''],
                            answerClockStarted := True\<rparr>)\<rparr>),
          currentForcedTimer := Some 0,
          currentSocketEvent := Some ''showHostRevealFastestFingerQuestionChoices'',
          timeouts := [(0, Call_fastestFingerTimeUp, 10000)],
          nextHandle := 1,
          logged := [LogPhase ''showHostRevealFastestFingerQuestionChoices''],
          emitted := [UpdateAll (Some ''showHostRevealFastestFingerQuestionChoices'')]\<rparr>"

definition early :: "(nat \<times> Data) list" where
  "early = [submit 1 2, submit 2 2, submit 1 3, submit 2 0, submit 1 0, submit 2 3, submit 1 1]"

definition quiz_waiting :: GameServer where
  "quiz_waiting =
     quiz_revealed\<lparr>playerMap := [(1, ann\<lparr>fastestFingerChoices := [2, 3, 0, 1]\<rparr>),
                                  (2, bob\<lparr>fastestFingerChoices := [2, 0, 3]\<rparr>)],
       logged := logged quiz_revealed
                 @ map (\<lambda>(socket, data). LogChoice ''contestantFastestFingerChoose: '' (choice data)) early,
       emitted := emitted quiz_revealed
                  @ map (\<lambda>(socket, data). UpdateSocket socket
                           (Some ''showHostRevealFastestFingerQuestionChoices'')) early\<rparr>"

definition quiz_done :: GameServer where
  "quiz_done =
     quiz_waiting\<lparr>playerMap := [(1, ann\<lparr>fastestFingerChoices := [2, 3, 0, 1]\<rparr>),
                                 (2, bob\<lparr>fastestFingerChoices := [2, 0, 3, 1]\<rparr>)],
       serverState := map_option (setShowHostStepDialog (Some (timeUpDialog studio_state)))
                        (serverState quiz_waiting),
       currentSocketEvent := Some ''fastestFingerTimeUp'',
       timeouts := [],
       logged := logged quiz_waiting
                 @ [LogChoice ''contestantFastestFingerChoose: '' (Some 1),
                    LogPhase ''fastestFingerTimeUp''],
       emitted := emitted quiz_waiting
                  @ [UpdateSocket 2 (Some ''showHostRevealFastestFingerQuestionChoices''),
                     UpdateAll (Some ''fastestFingerTimeUp'')]\<rparr>"

text \<open>
  \<open>correct_seat\<close> is \<open>studio\<close> with the hot-seat player on the correct slot 2, and
  \<open>after_final_answer\<close> is a game after the final answer at index 4 without a show
  host, stepping to the given phase.
\<close>

definition correct_seat :: GameServer where
  "correct_seat = studio\<lparr>playerMap := [(1, ann\<lparr>hotSeatChoice := Some 2\<rparr>), (2, bob)]\<rparr>"

definition final_answer_dialog :: "string \<Rightarrow> StepDialog" where
  "final_answer_dialog next =
     \<lparr>actions = [], timeoutFunc = Some (InvokeHandler next), timeoutMs = Some 1500,
      header = None\<rparr>"

definition after_final_answer :: "GameServer \<Rightarrow> string \<Rightarrow> GameServer" where
  "after_final_answer g next =
     g\<lparr>serverState :=
           Some (studio_state\<lparr>hotSeatQuestion :=
                                 Some (capitals\<lparr>correctChoiceRevealedForShowHost := True\<rparr>),
                               showHostStepDialog := Some (final_answer_dialog next)\<rparr>),
       currentSocketEvent := Some ''hotSeatFinalAnswer'',
       logged := [LogPhase ''hotSeatFinalAnswer''],
       emitted := [UpdateAll (Some ''hotSeatFinalAnswer'')]\<rparr>"

section \<open>Evaluating the examples\<close>

lemmas game_defs = quiz_def studio_def studio_state_def ann_def bob_def ranking_def submit_def
  quiz_revealed_def quiz_waiting_def quiz_done_def early_def timeUpDialog_def overdue_def
  capitals_def correct_seat_def final_answer_dialog_def after_final_answer_def

lemmas handler_defs =
  showHostRevealFastestFingerQuestionChoices_def contestantFastestFingerChoose_def Let_def
  logInfo_def getPlayerBySocket_def setPlayer_def chooseFastestFinger_def chooseHotSeat_def
  isValidChoice_def VALID_CHOICES_def updateGameForSocket_def
  allPlayersDoneWithFastestFinger_def MAX_CHOICES_def
  fastestFingerTimeUp_def clearTimeout_def stepWithOneChoiceDialog_def
  getOneChoiceHostStepDialog_def playerShowHostPresent_def setShowHostStepDialog_def
  setHotSeatStepDialog_def getYesNoDialog_def
  updateGame_def setTimeout_def revealAllChoices_def markStartTime_def
  hotSeatChoose_def contestantChoose_def hotSeatFinalAnswer_def
  revealCorrectChoiceForShowHost_def answerIsCorrect_def js_get_def js_get_at_def
  GameServer_FINAL_ANSWER_WAIT_TIMES_def FINAL_ANSWER_WAIT_TIMES_def

section \<open>Safe havens\<close>

lemma js_rem_pos: "0 \<le> a \<Longrightarrow> 0 < b \<Longrightarrow> js_rem a b = a mod b"
  by (cases "a = 0") (simp_all add: js_rem_def)

lemma getSafeHavenIndex_nonneg:
  "0 \<le> failedIndex \<Longrightarrow> getSafeHavenIndex failedIndex = (failedIndex + 1) div 5 * 5 - 1"
proof -
  assume nn: "0 \<le> failedIndex"
  have "js_rem (failedIndex + 1) 5 = (failedIndex + 1) mod 5"
    using nn by (simp add: js_rem_pos)
  moreover have "failedIndex + 1 - (failedIndex + 1) mod 5 = (failedIndex + 1) div 5 * 5"
    by (simp add: minus_mod_eq_div_mult)
  ultimately show ?thesis
    using nn by (simp add: getSafeHavenIndex_def Let_def max_def)
qed

text \<open>
  C2. For every failed index from 0 to 14 the safe haven index is
  \<open>floor((failedIndex + 1) / 5) * 5 - 1\<close>: it is -1 up to index 3, 4 from index 4 to 8,
  9 from index 9 to 13, and 14 at index 14.
\<close>

theorem getSafeHavenIndex_formula:
  assumes "0 \<le> failedIndex" and "failedIndex \<le> 14"
  shows "getSafeHavenIndex failedIndex = (failedIndex + 1) div 5 * 5 - 1
       \<and> (failedIndex \<le> 3 \<longrightarrow> getSafeHavenIndex failedIndex = - 1)
       \<and> (4 \<le> failedIndex \<and> failedIndex \<le> 8 \<longrightarrow> getSafeHavenIndex failedIndex = 4)
       \<and> (9 \<le> failedIndex \<and> failedIndex \<le> 13 \<longrightarrow> getSafeHavenIndex failedIndex = 9)
       \<and> (failedIndex = 14 \<longrightarrow> getSafeHavenIndex failedIndex = 14)"
proof -
  have f: "getSafeHavenIndex failedIndex = (failedIndex + 1) div 5 * 5 - 1"
    using assms(1) by (rule getSafeHavenIndex_nonneg)
  show ?thesis
    unfolding f using assms by presburger
qed

theorem getSafeHavenIndex_formula_witness:
  "getSafeHavenIndex 0 = - 1 \<and> getSafeHavenIndex 4 = 4 \<and> getSafeHavenIndex 5 = 4
 \<and> getSafeHavenIndex 9 = 9 \<and> getSafeHavenIndex 10 = 9 \<and> getSafeHavenIndex 14 = 14"
  using getSafeHavenIndex_formula [of 0] getSafeHavenIndex_formula [of 4]
    getSafeHavenIndex_formula [of 5] getSafeHavenIndex_formula [of 9]
    getSafeHavenIndex_formula [of 10] getSafeHavenIndex_formula [of 14]
  by simp

section \<open>Grading through the shuffle\<close>

lemma getShuffledChoice_from_nth:
  "distinct cs \<Longrightarrow> k < length cs \<Longrightarrow>
   getShuffledChoice_from cs (Some (cs ! k)) i = Some (i + int k)"
proof (induction cs arbitrary: i k)
  case Nil
  then show ?case by simp
next
  case (Cons c cs)
  show ?case
  proof (cases k)
    case 0
    then show ?thesis by simp
  next
    case (Suc m)
    with Cons.prems have m: "m < length cs" and d: "distinct cs" and ne: "cs ! m \<noteq> c"
      by auto
    from Cons.IH [OF d m, of "i + 1"] ne Suc show ?thesis by simp
  qed
qed

text \<open>
  C1. When the four ordered choices are distinct and the shuffle is a permutation of
  them (any of the 24), \<open>getShuffledChoice 0\<close> finds a slot \<open>c\<close> among 0, 1, 2, 3, and
  \<open>answerIsCorrect\<close> is true for the slot \<open>c\<close> and false for every other slot.
\<close>

theorem answerIsCorrect_exactly_first_ranked:
  assumes len: "length (orderedChoices q) = 4"
    and dist: "distinct (orderedChoices q)"
    and perm: "mset (shuffledChoices q) = mset (orderedChoices q)"
  shows "\<exists>c. getShuffledChoice q 0 = Some c \<and> c \<in> {0, 1, 2, 3}
           \<and> (\<forall>slot. answerIsCorrect q (Some slot) = (slot = c))"
proof -
  let ?s = "shuffledChoices q" and ?o = "orderedChoices q"
  have first: "js_get ?o 0 = Some (?o ! 0)"
    using len by (simp add: js_get_def)
  have slen: "length ?s = 4"
    using perm len by (metis size_mset)
  have sdist: "distinct ?s"
    using perm dist by (metis mset_eq_imp_distinct_iff)
  have "?o ! 0 \<in> set ?o"
    using len by simp
  then have "?o ! 0 \<in> set ?s"
    using perm by (metis set_mset_mset)
  then obtain k where k: "k < length ?s" and sk: "?s ! k = ?o ! 0"
    by (auto simp: in_set_conv_nth)
  have found: "getShuffledChoice q 0 = Some (int k)"
    using getShuffledChoice_from_nth [OF sdist k, of 0] sk first
    by (simp add: getShuffledChoice_def)
  have range: "int k \<in> {0, 1, 2, 3}"
    using k slen by auto
  have "answerIsCorrect q (Some slot) = (slot = int k)" for slot
  proof (cases "0 \<le> slot \<and> slot < 4")
    case True
    then have n: "nat slot < length ?s" using slen by linarith
    have "(?s ! nat slot = ?s ! k) = (nat slot = k)"
      using sdist n k by (simp add: nth_eq_iff_index_eq)
    then show ?thesis
      using True slen first sk by (auto simp: answerIsCorrect_def js_get_at_def js_get_def)
  next
    case False
    then show ?thesis
      using slen first k by (auto simp: answerIsCorrect_def js_get_at_def js_get_def)
  qed
  with found range show ?thesis by blast
qed

theorem answerIsCorrect_exactly_first_ranked_witness:
  "getShuffledChoice capitals 0 = Some 2 \<and> answerIsCorrect capitals (Some 2)
 \<and> \<not> answerIsCorrect capitals (Some 0) \<and> \<not> answerIsCorrect capitals (Some 1)
 \<and> \<not> answerIsCorrect capitals (Some 3)"
  using answerIsCorrect_exactly_first_ranked [of capitals]
  by (simp add: capitals_def getShuffledChoice_def js_get_def)

section \<open>The remaining choices\<close>

lemma remaining_forEach_filter:
  "remaining_forEach q xs i acc =
     acc @ filter (revealedAt q) (map (\<lambda>k. i + int k) [0..<length xs])"
proof (induction xs arbitrary: i acc)
  case Nil
  then show ?case by simp
next
  case (Cons x xs)
  have "[0..<Suc (length xs)] = 0 # map Suc [0..<length xs]"
    by (simp add: upt_conv_Cons map_Suc_upt del: upt_Suc)
  then have "map (\<lambda>k. i + int k) [0..<length (x # xs)]
        = i # map (\<lambda>k. i + 1 + int k) [0..<length xs]"
    by (simp add: comp_def add.assoc add.commute del: upt_Suc)
  then show ?case
    using Cons.IH [of "i + 1"] by simp
qed

lemma getRemaining_filter:
  "getRemainingOrderedChoiceIndexes q =
     filter (revealedAt q) (map int [0..<length (orderedChoices q)])"
  by (simp add: getRemainingOrderedChoiceIndexes_def remaining_forEach_filter)

lemma revealedAt_iff:
  "revealedAt q i =
     (\<exists>slot choice. getShuffledChoice q i = Some slot
        \<and> js_get (revealedChoices q) slot = Some (Some choice))"
  by (auto simp: revealedAt_def js_get_at_def split: option.splits)

text \<open>
  C8, as the code has it. \<open>getRemainingOrderedChoiceIndexes\<close> returns, in true-rank
  order, exactly the ordered indexes whose choice is currently shown: the indexes
  \<open>i\<close> of \<open>orderedChoices\<close> for which \<open>getShuffledChoice i\<close> is a slot holding a defined
  entry of \<open>revealedChoices\<close>.
\<close>

theorem getRemainingOrderedChoiceIndexes_shown:
  "sorted_wrt (<) (getRemainingOrderedChoiceIndexes q)
 \<and> set (getRemainingOrderedChoiceIndexes q) =
     {i. 0 \<le> i \<and> i < int (length (orderedChoices q))
        \<and> (\<exists>slot choice. getShuffledChoice q i = Some slot
               \<and> js_get (revealedChoices q) slot = Some (Some choice))}"
proof -
  have "sorted_wrt (<) (map int [0..<length (orderedChoices q)])"
    by (simp add: sorted_wrt_map)
  then have "sorted_wrt (<) (getRemainingOrderedChoiceIndexes q)"
    unfolding getRemaining_filter by (rule sorted_wrt_filter)
  moreover have "set (map int [0..<n]) = {i. 0 \<le> i \<and> i < int n}" for n
    by (auto simp: image_iff intro: nat_0_le [symmetric] bexI [where x = "nat _"])
  ultimately show ?thesis
    by (auto simp: getRemaining_filter revealedAt_iff)
qed

theorem getRemainingOrderedChoiceIndexes_shown_witness:
  "getRemainingOrderedChoiceIndexes capitals = [1, 3]
 \<and> sorted_wrt (<) (getRemainingOrderedChoiceIndexes capitals)"
  using getRemainingOrderedChoiceIndexes_shown [of capitals]
  by (simp add: getRemainingOrderedChoiceIndexes_def revealedAt_def getShuffledChoice_def
      js_get_at_def js_get_def capitals_def)

text \<open>
  With the first two presented choices shown, the code returns the ordered indexes 1 and
  3 of the two shown choices; the choices not yet shown have the ordered indexes 0 and 2.
  Before any choice is shown it returns nothing.
\<close>

theorem getRemainingOrderedChoiceIndexes_counterexample:
  "getRemainingOrderedChoiceIndexes capitals = [1, 3]
 \<and> \<not> revealedAt capitals 0 \<and> revealedAt capitals 1
 \<and> \<not> revealedAt capitals 2 \<and> revealedAt capitals 3
 \<and> getRemainingOrderedChoiceIndexes capitals_fresh = []"
  by (simp add: getRemainingOrderedChoiceIndexes_def revealedAt_def getShuffledChoice_def
      js_get_at_def js_get_def capitals_def capitals_fresh_def)

section \<open>The compressed question\<close>

text \<open>
  C4. The compressed hot-seat question has a \<open>correctChoice\<close> field exactly when
  \<open>showCorrectChoice\<close> is true, and its \<open>choiceLocked\<close> field is true exactly when
  \<open>madeChoice\<close> is defined.
\<close>

theorem toCompressed_correctChoice_choiceLocked:
  "(correctChoice (toCompressed q madeChoice showCorrectChoice) \<noteq> None) = showCorrectChoice
 \<and> choiceLocked (toCompressed q madeChoice showCorrectChoice) = Some (madeChoice \<noteq> None)"
  by (simp add: toCompressed_def Question_toCompressed_def Let_def)

theorem toCompressed_correctChoice_choiceLocked_witness:
  "correctChoice (toCompressed capitals (Some 1) True) = Some (Some 2)
 \<and> choiceLocked (toCompressed capitals (Some 1) True) = Some True
 \<and> correctChoice (toCompressed capitals None False) = None
 \<and> choiceLocked (toCompressed capitals None False) = Some False"
  using toCompressed_correctChoice_choiceLocked [of capitals "Some 1" True]
    toCompressed_correctChoice_choiceLocked [of capitals None False]
  by (simp add: toCompressed_def Question_toCompressed_def Let_def getCorrectChoice_def
      getShuffledChoice_def js_get_def capitals_def)

section \<open>The one-choice dialog\<close>

text \<open>
  C3. In a running game, the one-choice dialog built for a session with a human show
  host has exactly one action, for the next socket event, and neither a timeout function
  nor a delay; built for a session without one it has no action and a timeout function
  that invokes the same next socket event, after the delay \<open>aiTimeout\<close> of the call.
\<close>

theorem getOneChoiceHostStepDialog_host_or_timeout:
  assumes "serverState g = Some s"
  shows "(playerShowHostPresent s \<longrightarrow>
           (\<exists>d. getOneChoiceHostStepDialog g data = Inr d
              \<and> actions d = [\<lparr>socketEvent = nextSocketEvent data, label = hostButtonMessage data\<rparr>]
              \<and> timeoutFunc d = None \<and> timeoutMs d = None))
       \<and> (\<not> playerShowHostPresent s \<longrightarrow>
           (\<exists>d. getOneChoiceHostStepDialog g data = Inr d
              \<and> actions d = []
              \<and> timeoutFunc d = Some (InvokeHandler (nextSocketEvent data))
              \<and> timeoutMs d = aiTimeout data))"
  using assms by (simp add: getOneChoiceHostStepDialog_def)

theorem getOneChoiceHostStepDialog_host_or_timeout_witness:
  "getOneChoiceHostStepDialog studio cue =
     Inr \<lparr>actions = [], timeoutFunc = Some (InvokeHandler ''showHostCueFastestFingerQuestion''),
          timeoutMs = Some 5000, header = None\<rparr>
 \<and> getOneChoiceHostStepDialog hosted cue =
     Inr \<lparr>actions = [\<lparr>socketEvent = ''showHostCueFastestFingerQuestion'',
                       label = ''CUE_FASTEST_FINGER_MUSIC''\<rparr>],
          timeoutFunc = None, timeoutMs = None, header = None\<rparr>"
  using getOneChoiceHostStepDialog_host_or_timeout [of studio studio_state cue]
    getOneChoiceHostStepDialog_host_or_timeout
      [of hosted "studio_state\<lparr>showHost := Some 2\<rparr>" cue]
  by (simp add: hosted_def studio_def studio_state_def cue_def getOneChoiceHostStepDialog_def playerShowHostPresent_def)

section \<open>Listeners and handlers\<close>

text \<open>
  C5 fails on the code: ten of the names in \<open>SOCKET_EVENTS\<close> have no method in the
  class. One of them is the loss phase that \<^verbatim>\<open>hotSeatFinalAnswer\<close> steps to; the
  listener registered for it throws.
\<close>

theorem listener_without_handler:
  "''showHostRevealHotSeatQuestionLoss'' \<in> set SOCKET_EVENTS
 \<and> listenerCalls ''showHostRevealHotSeatQuestionLoss'' = Inl TypeError
 \<and> (''showHostRevealHotSeatQuestionLoss'', Inl TypeError) \<in> set activateListenersForSocket
 \<and> filter (\<lambda>event. event \<notin> set GameServer_methods) SOCKET_EVENTS =
     [''showHostHighlightLifeline'', ''showHostAskTheAudience'', ''showHostDoFiftyFifty'',
      ''showHostPhoneAFriend'', ''showHostRevealHotSeatQuestionLoss'', ''showHostShowScores'',
      ''contestantSetConfidence'', ''hotSeatUseLifeline'', ''hotSeatConfirmLifeline'',
      ''hotSeatPickPhoneAFriend'']"
  by (simp add: SOCKET_EVENTS_def GameServer_methods_def listenerCalls_def
      activateListenersForSocket_def)

section \<open>The final answer\<close>

lemma answerIsCorrect_reveal [simp]:
  "answerIsCorrect (revealCorrectChoiceForShowHost q) answer = answerIsCorrect q answer"
  by (simp add: answerIsCorrect_def revealCorrectChoiceForShowHost_def)

lemma wait_4: "js_get GameServer_FINAL_ANSWER_WAIT_TIMES 4 = Some 1500"
  by (simp add: js_get_def GameServer_FINAL_ANSWER_WAIT_TIMES_def FINAL_ANSWER_WAIT_TIMES_def)

lemma wait_4_table: "js_get FINAL_ANSWER_WAIT_TIMES 4 = Some 1500"
  by (simp add: js_get_def FINAL_ANSWER_WAIT_TIMES_def)

text \<open>
  C10. At hot-seat question index 4 and without a show host, \<^verbatim>\<open>hotSeatFinalAnswer\<close>
  installs a dialog with no action whose timeout function invokes the loss phase when the
  locked-in answer is incorrect and the victory phase when it is correct, in both cases
  after \<open>FINAL_ANSWER_WAIT_TIMES[4]\<close>, which is 1500 milliseconds.
\<close>

theorem hotSeatFinalAnswer_tier_five_wait:
  assumes "serverState g = Some s" and "hotSeatQuestion s = Some q"
    and "hotSeatQuestionIndex s = 4" and "\<not> playerShowHostPresent s"
    and "hotSeatPlayer s = Some seat" and "getPlayerBySocket (playerMap g) seat = Some player"
  shows "\<exists>g' s'. hotSeatFinalAnswer g = Inr g' \<and> serverState g' = Some s'
           \<and> showHostStepDialog s' =
               Some \<lparr>actions = [],
                     timeoutFunc = Some (InvokeHandler
                       (if answerIsCorrect q (hotSeatChoice player)
                        then ''showHostRevealHotSeatQuestionVictory''
                        else ''showHostRevealHotSeatQuestionLoss'')),
                     timeoutMs = Some 1500, header = None\<rparr>
           \<and> js_get FINAL_ANSWER_WAIT_TIMES 4 = Some 1500"
  using assms
  by (simp add: hotSeatFinalAnswer_def Let_def logInfo_def stepWithOneChoiceDialog_def
      getOneChoiceHostStepDialog_def playerShowHostPresent_def setShowHostStepDialog_def
      updateGame_def wait_4 wait_4_table)

theorem hotSeatFinalAnswer_tier_five_wait_witness:
  "hotSeatFinalAnswer studio =
     Inr (after_final_answer studio ''showHostRevealHotSeatQuestionLoss'')
 \<and> hotSeatFinalAnswer correct_seat =
     Inr (after_final_answer correct_seat ''showHostRevealHotSeatQuestionVictory'')"
  using hotSeatFinalAnswer_tier_five_wait [of studio studio_state capitals 1 ann]
    hotSeatFinalAnswer_tier_five_wait
      [of correct_seat studio_state capitals 1 "ann\<lparr>hotSeatChoice := Some 2\<rparr>"]
  by (simp add: game_defs handler_defs)

section \<open>What the handlers change\<close>

lemma stepWithOneChoiceDialog_Inr:
  assumes "stepWithOneChoiceDialog g data = Inr g'"
  shows "\<exists>s d. serverState g = Some s \<and> getOneChoiceHostStepDialog g data = Inr d
           \<and> g' = g\<lparr>serverState := Some (setShowHostStepDialog (Some d) s),
                     emitted := emitted g @ [UpdateAll (currentSocketEvent g)]\<rparr>"
  using assms
  by (auto simp: stepWithOneChoiceDialog_def updateGame_def split: option.splits sum.splits)

lemma fastestFingerTimeUp_Inr:
  assumes "fastestFingerTimeUp g = Inr g'"
  shows "\<exists>s. serverState g = Some s
           \<and> g' = g\<lparr>currentSocketEvent := Some ''fastestFingerTimeUp'',
                     logged := logged g @ [LogPhase ''fastestFingerTimeUp''],
                     timeouts := filter (\<lambda>t. Some (fst t) \<noteq> currentForcedTimer g) (timeouts g),
                     serverState := Some (setShowHostStepDialog (Some (timeUpDialog s)) s),
                     emitted := emitted g @ [UpdateAll (Some ''fastestFingerTimeUp'')]\<rparr>"
  using assms
  by (auto simp: fastestFingerTimeUp_def Let_def logInfo_def clearTimeout_def timeUpDialog_def
      getOneChoiceHostStepDialog_def
      dest!: stepWithOneChoiceDialog_Inr split: option.splits if_splits)

lemma fastestFingerTimeUp_total:
  "serverState g = Some s \<Longrightarrow> \<exists>g'. fastestFingerTimeUp g = Inr g'"
  by (simp add: fastestFingerTimeUp_def Let_def logInfo_def clearTimeout_def
      stepWithOneChoiceDialog_def getOneChoiceHostStepDialog_def)

lemma contestantFastestFingerChoose_Inr:
  assumes "contestantFastestFingerChoose g socket data = Inr g'"
  shows "\<exists>s p g1. serverState g = Some s \<and> getPlayerBySocket (playerMap g) socket = Some p
           \<and> g1 = g\<lparr>logged := logged g @ [LogChoice ''contestantFastestFingerChoose: '' (choice data)],
                     playerMap := setPlayer socket (chooseFastestFinger (choice data) p) (playerMap g),
                     emitted := emitted g @ [UpdateSocket socket (currentSocketEvent g)]\<rparr>
           \<and> (if allPlayersDoneWithFastestFinger s (playerMap g1)
               then fastestFingerTimeUp g1 = Inr g' else g' = g1)"
  using assms
  by (auto simp: contestantFastestFingerChoose_def Let_def logInfo_def updateGameForSocket_def
      split: option.splits sum.splits if_splits)

lemma contestantFastestFingerChoose_total:
  assumes "serverState g = Some s" and "getPlayerBySocket (playerMap g) socket = Some p"
  shows "\<exists>g'. contestantFastestFingerChoose g socket data = Inr g'"
proof -
  let ?g1 = "g\<lparr>logged := logged g @ [LogChoice ''contestantFastestFingerChoose: '' (choice data)],
              playerMap := setPlayer socket (chooseFastestFinger (choice data) p) (playerMap g),
              emitted := emitted g @ [UpdateSocket socket (currentSocketEvent g)]\<rparr>"
  have "serverState ?g1 = Some s" using assms by simp
  from fastestFingerTimeUp_total [OF this] obtain g' where "fastestFingerTimeUp ?g1 = Inr g'" ..
  then show ?thesis
    using assms
    by (simp add: contestantFastestFingerChoose_def Let_def logInfo_def updateGameForSocket_def)
qed

text \<open>
  C7, as the code has it. \<^verbatim>\<open>contestantFastestFingerChoose\<close> does not look at the
  phase. In a running game, in any phase, a submission of a known player is passed to the
  player's \<open>chooseFastestFinger\<close>. If all players are then done the time-up phase fires:
  the phase becomes \<open>fastestFingerTimeUp\<close>, its dialog is installed and the forced timer is
  cleared. Otherwise the phase, the server state and the pending timeouts stay as they are.
\<close>

theorem contestantFastestFingerChoose_any_phase:
  assumes "serverState g = Some s" and "getPlayerBySocket (playerMap g) socket = Some p"
  shows "\<exists>g'. contestantFastestFingerChoose g socket data = Inr g'
           \<and> playerMap g' = setPlayer socket (chooseFastestFinger (choice data) p) (playerMap g)
           \<and> (if allPlayersDoneWithFastestFinger s (playerMap g')
               then currentSocketEvent g' = Some ''fastestFingerTimeUp''
                  \<and> timeUps g' = timeUps g + 1
                  \<and> serverState g' = Some (setShowHostStepDialog (Some (timeUpDialog s)) s)
                  \<and> timeouts g' = filter (\<lambda>t. Some (fst t) \<noteq> currentForcedTimer g) (timeouts g)
               else currentSocketEvent g' = currentSocketEvent g
                  \<and> timeUps g' = timeUps g
                  \<and> serverState g' = serverState g
                  \<and> timeouts g' = timeouts g)"
proof -
  from contestantFastestFingerChoose_total [OF assms] obtain g' where
    c: "contestantFastestFingerChoose g socket data = Inr g'" ..
  from contestantFastestFingerChoose_Inr [OF c] assms obtain g1 where
    g1: "g1 = g\<lparr>logged := logged g @ [LogChoice ''contestantFastestFingerChoose: '' (choice data)],
                playerMap := setPlayer socket (chooseFastestFinger (choice data) p) (playerMap g),
                emitted := emitted g @ [UpdateSocket socket (currentSocketEvent g)]\<rparr>"
    and r: "if allPlayersDoneWithFastestFinger s (playerMap g1)
            then fastestFingerTimeUp g1 = Inr g' else g' = g1"
    by auto
  show ?thesis
  proof (cases "allPlayersDoneWithFastestFinger s (playerMap g1)")
    case True
    with r have "fastestFingerTimeUp g1 = Inr g'" by simp
    from fastestFingerTimeUp_Inr [OF this] True c assms(1) show ?thesis
      by (auto simp: g1 timeUps_def)
  next
    case False
    with r have "g' = g1" by simp
    with False c assms(1) show ?thesis
      by (auto simp: g1 timeUps_def)
  qed
qed

theorem contestantFastestFingerChoose_any_phase_witness:
  "contestantFastestFingerChoose overdue 1 \<lparr>choice = Some 3\<rparr> =
     Inr (overdue\<lparr>logged := [LogChoice ''contestantFastestFingerChoose: '' (Some 3)],
                  emitted := [UpdateSocket 1 (Some ''showHostRevealFastestFingerAnswer'')]\<rparr>)"
  using contestantFastestFingerChoose_any_phase
    [of overdue studio_state 1 "ann\<lparr>fastestFingerChoices := [2, 3, 0, 1]\<rparr>" "\<lparr>choice = Some 3\<rparr>"]
  by (simp add: game_defs handler_defs)

text \<open>
  While the answers are being revealed, the second player's missing choice arrives: it is
  stored, all players are done, and the time-up phase fires again.
\<close>

theorem contestantFastestFingerChoose_late_counterexample:
  "currentSocketEvent overdue = Some ''showHostRevealFastestFingerAnswer''
 \<and> contestantFastestFingerChoose overdue 2 \<lparr>choice = Some 1\<rparr> =
     Inr (overdue\<lparr>playerMap := [(1, ann\<lparr>fastestFingerChoices := [2, 3, 0, 1]\<rparr>),
                                (2, bob\<lparr>fastestFingerChoices := [2, 0, 3, 1]\<rparr>)],
                  serverState := Some (studio_state\<lparr>showHostStepDialog :=
                                         Some (timeUpDialog studio_state)\<rparr>),
                  currentSocketEvent := Some ''fastestFingerTimeUp'',
                  logged := [LogChoice ''contestantFastestFingerChoose: '' (Some 1),
                             LogPhase ''fastestFingerTimeUp''],
                  emitted := [UpdateSocket 2 (Some ''showHostRevealFastestFingerAnswer''),
                              UpdateAll (Some ''fastestFingerTimeUp'')]\<rparr>)"
  by (simp add: game_defs handler_defs)

text \<open>
  C9, as the code has it. No choice handler checks the choice: in a running game, for any
  \<^verbatim>\<open>data.choice\<close>, each hands it to the method of the player and does not throw.
  \<^verbatim>\<open>hotSeatChoose\<close> then sets the phase and installs the yes/no dialog, in the show
  host's slot when a host is present and in the hot-seat player's slot otherwise.
  \<^verbatim>\<open>contestantChoose\<close> changes neither the server state nor the phase nor the pending
  timeouts. \<^verbatim>\<open>contestantFastestFingerChoose\<close> changes the server state and the phase
  only when all players are done, by firing the time-up phase.
\<close>

theorem choice_handlers_pass_any_choice:
  assumes "serverState g = Some s"
  shows "(\<forall>seat p. hotSeatPlayer s = Some seat \<longrightarrow> getPlayerBySocket (playerMap g) seat = Some p \<longrightarrow>
            (\<exists>g' s'. hotSeatChoose g data = Inr g'
               \<and> playerMap g' = setPlayer seat (chooseHotSeat (choice data) p) (playerMap g)
               \<and> currentSocketEvent g' = Some ''hotSeatChoose''
               \<and> serverState g' = Some s'
               \<and> (if playerShowHostPresent s then showHostStepDialog s' else hotSeatStepDialog s') =
                   Some (getYesNoDialog ''hotSeatFinalAnswer'' ''showHostRevealHotSeatChoice''
                           ''HOT_SEAT_FINAL_ANSWER'')))
       \<and> (\<forall>socket p. getPlayerBySocket (playerMap g) socket = Some p \<longrightarrow>
            (\<exists>g'. contestantChoose g socket data = Inr g'
               \<and> playerMap g' = setPlayer socket (chooseHotSeat (choice data) p) (playerMap g)
               \<and> serverState g' = serverState g
               \<and> currentSocketEvent g' = currentSocketEvent g
               \<and> timeouts g' = timeouts g))
       \<and> (\<forall>socket p. getPlayerBySocket (playerMap g) socket = Some p \<longrightarrow>
            (\<exists>g'. contestantFastestFingerChoose g socket data = Inr g'
               \<and> playerMap g' = setPlayer socket (chooseFastestFinger (choice data) p) (playerMap g)
               \<and> (if allPlayersDoneWithFastestFinger s (playerMap g')
                   then currentSocketEvent g' = Some ''fastestFingerTimeUp''
                   else serverState g' = serverState g
                      \<and> currentSocketEvent g' = currentSocketEvent g)))"
proof (intro conjI allI impI)
  fix seat p
  assume "hotSeatPlayer s = Some seat" and "getPlayerBySocket (playerMap g) seat = Some p"
  with assms show "\<exists>g' s'. hotSeatChoose g data = Inr g'
               \<and> playerMap g' = setPlayer seat (chooseHotSeat (choice data) p) (playerMap g)
               \<and> currentSocketEvent g' = Some ''hotSeatChoose''
               \<and> serverState g' = Some s'
               \<and> (if playerShowHostPresent s then showHostStepDialog s' else hotSeatStepDialog s') =
                   Some (getYesNoDialog ''hotSeatFinalAnswer'' ''showHostRevealHotSeatChoice''
                           ''HOT_SEAT_FINAL_ANSWER'')"
    by (simp add: hotSeatChoose_def Let_def logInfo_def updateGame_def
        setShowHostStepDialog_def setHotSeatStepDialog_def)
next
  fix socket p
  assume "getPlayerBySocket (playerMap g) socket = Some p"
  with assms show "\<exists>g'. contestantChoose g socket data = Inr g'
               \<and> playerMap g' = setPlayer socket (chooseHotSeat (choice data) p) (playerMap g)
               \<and> serverState g' = serverState g
               \<and> currentSocketEvent g' = currentSocketEvent g
               \<and> timeouts g' = timeouts g"
    by (simp add: contestantChoose_def Let_def logInfo_def updateGameForSocket_def)
next
  fix socket p
  assume p: "getPlayerBySocket (playerMap g) socket = Some p"
  from contestantFastestFingerChoose_total [OF assms p] obtain g' where
    c: "contestantFastestFingerChoose g socket data = Inr g'" ..
  from contestantFastestFingerChoose_Inr [OF c] assms p obtain g1 where
    g1: "g1 = g\<lparr>logged := logged g @ [LogChoice ''contestantFastestFingerChoose: '' (choice data)],
                playerMap := setPlayer socket (chooseFastestFinger (choice data) p) (playerMap g),
                emitted := emitted g @ [UpdateSocket socket (currentSocketEvent g)]\<rparr>"
    and r: "if allPlayersDoneWithFastestFinger s (playerMap g1)
            then fastestFingerTimeUp g1 = Inr g' else g' = g1"
    by auto
  show "\<exists>g'. contestantFastestFingerChoose g socket data = Inr g'
               \<and> playerMap g' = setPlayer socket (chooseFastestFinger (choice data) p) (playerMap g)
               \<and> (if allPlayersDoneWithFastestFinger s (playerMap g')
                   then currentSocketEvent g' = Some ''fastestFingerTimeUp''
                   else serverState g' = serverState g
                      \<and> currentSocketEvent g' = currentSocketEvent g)"
  proof (cases "allPlayersDoneWithFastestFinger s (playerMap g1)")
    case True
    with r have "fastestFingerTimeUp g1 = Inr g'" by simp
    from fastestFingerTimeUp_Inr [OF this] True c show ?thesis
      by (auto simp: g1)
  next
    case False
    with r have "g' = g1" by simp
    with False c show ?thesis
      by (auto simp: g1)
  qed
qed

theorem choice_handlers_pass_any_choice_witness:
  "contestantChoose studio 2 \<lparr>choice = Some 7\<rparr> =
     Inr (studio\<lparr>logged := [LogChoice ''contestantChoose: '' (Some 7)],
                 emitted := [UpdateSocket 2 (Some ''showHostRevealHotSeatChoice'')]\<rparr>)"
  using choice_handlers_pass_any_choice [of studio studio_state "\<lparr>choice = Some 7\<rparr>"]
  by (simp add: game_defs handler_defs)

text \<open>
  The choice 7 is no valid slot, and \<^verbatim>\<open>hotSeatChoose\<close> still changes the phase and
  installs the final-answer dialog in the server state.
\<close>

theorem hotSeatChoose_invalid_choice_counterexample:
  "\<not> isValidChoice (Some 7)
 \<and> hotSeatChoose studio \<lparr>choice = Some 7\<rparr> =
     Inr (studio\<lparr>serverState :=
                   Some (studio_state\<lparr>hotSeatStepDialog :=
                      Some \<lparr>actions = [\<lparr>socketEvent = ''hotSeatFinalAnswer'', label = ''YES''\<rparr>,
                                       \<lparr>socketEvent = ''showHostRevealHotSeatChoice'',
                                        label = ''NO''\<rparr>],
                            timeoutFunc = None, timeoutMs = None,
                            header = Some ''HOT_SEAT_FINAL_ANSWER''\<rparr>\<rparr>),
                 currentSocketEvent := Some ''hotSeatChoose'',
                 logged := [LogPhase ''hotSeatChoose''],
                 emitted := [UpdateAll (Some ''hotSeatChoose'')]\<rparr>)"
  by (simp add: game_defs handler_defs)

section \<open>The forced timer\<close>

lemma handlesAdvance_refl: "handlesAdvance g g"
  by (auto simp: handlesAdvance_def)

lemma handlesAdvance_stale:
  "handlesAdvance g g' \<Longrightarrow> stale h g \<Longrightarrow> stale h g'"
  by (auto simp: handlesAdvance_def stale_def pending_def)

lemma fastestFingerTimeUp_advance:
  "fastestFingerTimeUp g = Inr g' \<Longrightarrow> handlesAdvance g g'"
  by (drule fastestFingerTimeUp_Inr) (auto simp: handlesAdvance_def)

lemma showHostRevealFastestFingerQuestionChoices_Inr:
  assumes "showHostRevealFastestFingerQuestionChoices g = Inr g'"
  shows "currentForcedTimer g' = Some (nextHandle g)
       \<and> timeouts g' = timeouts g @ [(nextHandle g, Call_fastestFingerTimeUp, 10000)]
       \<and> nextHandle g' = Suc (nextHandle g)
       \<and> currentSocketEvent g' = Some ''showHostRevealFastestFingerQuestionChoices''
       \<and> logged g' = logged g @ [LogPhase ''showHostRevealFastestFingerQuestionChoices'']
       \<and> playerMap g' = playerMap g"
  using assms
  by (auto simp: showHostRevealFastestFingerQuestionChoices_def Let_def logInfo_def
      updateGame_def setTimeout_def split: option.splits)

lemma showHostRevealFastestFingerQuestionChoices_advance:
  "showHostRevealFastestFingerQuestionChoices g = Inr g' \<Longrightarrow> handlesAdvance g g'"
  by (drule showHostRevealFastestFingerQuestionChoices_Inr) (auto simp: handlesAdvance_def)

lemma showHostCueFastestFingerThreeStrikes_advance:
  "showHostCueFastestFingerThreeStrikes g = Inr g' \<Longrightarrow> handlesAdvance g g'"
  by (auto simp: showHostCueFastestFingerThreeStrikes_def Let_def logInfo_def
      updateGame_def setTimeout_def handlesAdvance_def split: option.splits)

lemma contestantFastestFingerChoose_advance:
  assumes "contestantFastestFingerChoose g socket data = Inr g'"
  shows "handlesAdvance g g'"
proof -
  from contestantFastestFingerChoose_Inr [OF assms] obtain s p g1 where
    g1: "g1 = g\<lparr>logged := logged g @ [LogChoice ''contestantFastestFingerChoose: '' (choice data)],
                playerMap := setPlayer socket (chooseFastestFinger (choice data) p) (playerMap g),
                emitted := emitted g @ [UpdateSocket socket (currentSocketEvent g)]\<rparr>"
    and r: "if allPlayersDoneWithFastestFinger s (playerMap g1)
            then fastestFingerTimeUp g1 = Inr g' else g' = g1"
    by blast
  have same: "handlesAdvance g g1"
    by (simp add: g1 handlesAdvance_def subset_insertI)
  show ?thesis
  proof (cases "allPlayersDoneWithFastestFinger s (playerMap g1)")
    case True
    with r have "handlesAdvance g1 g'" by (simp add: fastestFingerTimeUp_advance)
    with same show ?thesis
      by (auto simp: handlesAdvance_def g1)
  next
    case False
    with r same show ?thesis by simp
  qed
qed

lemma hotSeatChoose_advance:
  "hotSeatChoose g data = Inr g' \<Longrightarrow> handlesAdvance g g'"
  by (auto simp: hotSeatChoose_def Let_def logInfo_def updateGame_def handlesAdvance_def
      split: option.splits)

lemma contestantChoose_advance:
  "contestantChoose g socket data = Inr g' \<Longrightarrow> handlesAdvance g g'"
  by (auto simp: contestantChoose_def Let_def logInfo_def updateGameForSocket_def
      handlesAdvance_def split: option.splits)

lemma hotSeatFinalAnswer_advance:
  "hotSeatFinalAnswer g = Inr g' \<Longrightarrow> handlesAdvance g g'"
  by (auto simp: hotSeatFinalAnswer_def Let_def logInfo_def handlesAdvance_def
      dest!: stepWithOneChoiceDialog_Inr split: option.splits if_splits)

lemma timeoutExpires_advance:
  assumes "timeoutExpires h g = Inr g'"
  shows "handlesAdvance g g'"
proof (cases "map_of (timeouts g) h")
  case None
  with assms show ?thesis by (simp add: timeoutExpires_def handlesAdvance_refl)
next
  case (Some cm)
  obtain callback ms where cm: "cm = (callback, ms)" by (cases cm)
  let ?g1 = "g\<lparr>timeouts := filter (\<lambda>t. fst t \<noteq> h) (timeouts g)\<rparr>"
  from assms Some cm have "runCallback callback ?g1 = Inr g'"
    by (simp add: timeoutExpires_def)
  then have "handlesAdvance ?g1 g'"
    by (cases callback)
      (simp_all add: runCallback_def fastestFingerTimeUp_advance
        showHostRevealFastestFingerQuestionChoices_advance)
  then show ?thesis
    by (auto simp: handlesAdvance_def)
qed

lemma step_advance: "step e g = Inr g' \<Longrightarrow> handlesAdvance g g'"
  by (cases e)
    (simp_all add: showHostCueFastestFingerThreeStrikes_advance
      showHostRevealFastestFingerQuestionChoices_advance contestantFastestFingerChoose_advance
      fastestFingerTimeUp_advance hotSeatChoose_advance contestantChoose_advance
      hotSeatFinalAnswer_advance timeoutExpires_advance)

lemma run_stale: "run es g = Inr g' \<Longrightarrow> stale h g \<Longrightarrow> stale h g'"
proof (induction es arbitrary: g)
  case Nil
  then show ?case by simp
next
  case (Cons e es)
  from Cons.prems(1) obtain g1 where s: "step e g = Inr g1" and r: "run es g1 = Inr g'"
    by (auto split: sum.splits)
  from s Cons.prems(2) have "stale h g1"
    by (blast intro: handlesAdvance_stale step_advance)
  with r show ?case by (rule Cons.IH)
qed

lemma timeoutExpires_not_pending:
  "\<not> pending h g \<Longrightarrow> timeoutExpires h g = Inr g"
proof -
  assume "\<not> pending h g"
  then have "map_of (timeouts g) h = None"
    by (simp add: pending_def map_of_eq_None_iff)
  then show ?thesis by (simp add: timeoutExpires_def)
qed

lemma timeUps_append [simp]:
  "count_list (xs @ [x]) y = count_list xs y + (if x = y then 1 else 0)"
  by (induction xs) auto

lemma contestantFastestFingerChoose_quiet:
  assumes "contestantFastestFingerChoose g socket data = Inr g'"
    and "currentSocketEvent g' \<noteq> Some ''fastestFingerTimeUp''"
  shows "currentSocketEvent g' = currentSocketEvent g \<and> timeouts g' = timeouts g
       \<and> nextHandle g' = nextHandle g \<and> currentForcedTimer g' = currentForcedTimer g
       \<and> timeUps g' = timeUps g"
proof -
  from contestantFastestFingerChoose_Inr [OF assms(1)] obtain s p g1 where
    g1: "g1 = g\<lparr>logged := logged g @ [LogChoice ''contestantFastestFingerChoose: '' (choice data)],
                playerMap := setPlayer socket (chooseFastestFinger (choice data) p) (playerMap g),
                emitted := emitted g @ [UpdateSocket socket (currentSocketEvent g)]\<rparr>"
    and r: "if allPlayersDoneWithFastestFinger s (playerMap g1)
            then fastestFingerTimeUp g1 = Inr g' else g' = g1"
    by blast
  show ?thesis
  proof (cases "allPlayersDoneWithFastestFinger s (playerMap g1)")
    case True
    with r have "fastestFingerTimeUp g1 = Inr g'" by simp
    from fastestFingerTimeUp_Inr [OF this] assms(2) show ?thesis by auto
  next
    case False
    with r have "g' = g1" by simp
    then show ?thesis by (simp add: g1 timeUps_def)
  qed
qed

lemma contestantFastestFingerChoose_keeps_timeUp:
  assumes "contestantFastestFingerChoose g socket data = Inr g'"
    and "currentSocketEvent g = Some ''fastestFingerTimeUp''"
  shows "currentSocketEvent g' = Some ''fastestFingerTimeUp''"
proof -
  from contestantFastestFingerChoose_Inr [OF assms(1)] obtain s p g1 where
    g1: "g1 = g\<lparr>logged := logged g @ [LogChoice ''contestantFastestFingerChoose: '' (choice data)],
                playerMap := setPlayer socket (chooseFastestFinger (choice data) p) (playerMap g),
                emitted := emitted g @ [UpdateSocket socket (currentSocketEvent g)]\<rparr>"
    and r: "if allPlayersDoneWithFastestFinger s (playerMap g1)
            then fastestFingerTimeUp g1 = Inr g' else g' = g1"
    by blast
  show ?thesis
  proof (cases "allPlayersDoneWithFastestFinger s (playerMap g1)")
    case True
    with r have "fastestFingerTimeUp g1 = Inr g'" by simp
    from fastestFingerTimeUp_Inr [OF this] show ?thesis by auto
  next
    case False
    with r have "g' = g1" by simp
    then show ?thesis by (simp add: g1 assms(2))
  qed
qed

lemma submissions_keep_timeUp:
  "submissions ms g = Inr g' \<Longrightarrow> currentSocketEvent g = Some ''fastestFingerTimeUp''
   \<Longrightarrow> currentSocketEvent g' = Some ''fastestFingerTimeUp''"
proof (induction ms arbitrary: g)
  case Nil
  then show ?case by simp
next
  case (Cons m ms)
  obtain socket data where m: "m = (socket, data)" by (cases m)
  from Cons.prems(1) m obtain g1 where
    c: "contestantFastestFingerChoose g socket data = Inr g1" and r: "submissions ms g1 = Inr g'"
    by (auto split: sum.splits)
  from c Cons.prems(2) have "currentSocketEvent g1 = Some ''fastestFingerTimeUp''"
    by (rule contestantFastestFingerChoose_keeps_timeUp)
  with r show ?case by (rule Cons.IH)
qed

lemma submissions_quiet:
  "submissions ms g = Inr g' \<Longrightarrow> currentSocketEvent g' \<noteq> Some ''fastestFingerTimeUp''
   \<Longrightarrow> currentSocketEvent g' = currentSocketEvent g \<and> timeouts g' = timeouts g
       \<and> nextHandle g' = nextHandle g \<and> currentForcedTimer g' = currentForcedTimer g
       \<and> timeUps g' = timeUps g"
proof (induction ms arbitrary: g)
  case Nil
  then show ?case by simp
next
  case (Cons m ms)
  obtain socket data where m: "m = (socket, data)" by (cases m)
  from Cons.prems(1) m obtain g1 where
    c: "contestantFastestFingerChoose g socket data = Inr g1" and r: "submissions ms g1 = Inr g'"
    by (auto split: sum.splits)
  have q1: "currentSocketEvent g1 \<noteq> Some ''fastestFingerTimeUp''"
    using submissions_keep_timeUp [OF r] Cons.prems(2) by blast
  from contestantFastestFingerChoose_quiet [OF c q1] Cons.IH [OF r Cons.prems(2)]
  show ?case by simp
qed

lemma contestantFastestFingerChoose_fires:
  assumes c: "contestantFastestFingerChoose g socket data = Inr g'"
    and s': "serverState g' = Some s'"
    and fin: "allPlayersDoneWithFastestFinger s' (playerMap g')"
  shows "currentSocketEvent g' = Some ''fastestFingerTimeUp''
       \<and> timeUps g' = timeUps g + 1
       \<and> timeouts g' = filter (\<lambda>t. Some (fst t) \<noteq> currentForcedTimer g) (timeouts g)
       \<and> nextHandle g' = nextHandle g"
proof -
  from contestantFastestFingerChoose_Inr [OF c] obtain s p g1 where
    s: "serverState g = Some s"
    and g1: "g1 = g\<lparr>logged := logged g @ [LogChoice ''contestantFastestFingerChoose: '' (choice data)],
                playerMap := setPlayer socket (chooseFastestFinger (choice data) p) (playerMap g),
                emitted := emitted g @ [UpdateSocket socket (currentSocketEvent g)]\<rparr>"
    and r: "if allPlayersDoneWithFastestFinger s (playerMap g1)
            then fastestFingerTimeUp g1 = Inr g' else g' = g1"
    by blast
  have fired: "allPlayersDoneWithFastestFinger s (playerMap g1)"
  proof (rule ccontr)
    assume n: "\<not> allPlayersDoneWithFastestFinger s (playerMap g1)"
    with r have "g' = g1" by simp
    with s' s g1 have "s' = s" by simp
    with fin \<open>g' = g1\<close> n show False by simp
  qed
  with r have "fastestFingerTimeUp g1 = Inr g'" by simp
  from fastestFingerTimeUp_Inr [OF this] show ?thesis
    by (auto simp: g1 timeUps_def)
qed

text \<open>
  C6. Let \<^verbatim>\<open>showHostRevealFastestFingerQuestionChoices\<close> arm its 10-second timeout, let
  submissions arrive while the game is still in that phase, and let one more submission
  make all players done. Then that submission fires the time-up phase: since the reveal
  it has fired exactly once, the armed timeout is no longer pending, and after any later
  sequence of the modelled events it is still not pending, so that its expiry changes
  nothing.
\<close>

theorem fastestFingerTimeUp_once_on_early_completion:
  assumes armed: "showHostRevealFastestFingerQuestionChoices g0 = Inr g1"
    and earlier: "submissions ms g1 = Inr g2"
    and still_open: "currentSocketEvent g2 = Some ''showHostRevealFastestFingerQuestionChoices''"
    and last: "contestantFastestFingerChoose g2 socket data = Inr g3"
    and state: "serverState g3 = Some s3"
    and all_done: "allPlayersDoneWithFastestFinger s3 (playerMap g3)"
  shows "currentForcedTimer g1 = Some (nextHandle g0)
       \<and> (nextHandle g0, Call_fastestFingerTimeUp, 10000) \<in> set (timeouts g2)
       \<and> currentSocketEvent g3 = Some ''fastestFingerTimeUp''
       \<and> timeUps g3 = timeUps g0 + 1
       \<and> \<not> pending (nextHandle g0) g3
       \<and> (\<forall>es g'. run es g3 = Inr g' \<longrightarrow>
            \<not> pending (nextHandle g0) g' \<and> timeoutExpires (nextHandle g0) g' = Inr g')"
proof -
  note r = showHostRevealFastestFingerQuestionChoices_Inr [OF armed]
  have open2: "currentSocketEvent g2 \<noteq> Some ''fastestFingerTimeUp''"
    using still_open by simp
  note q = submissions_quiet [OF earlier open2]
  note f = contestantFastestFingerChoose_fires [OF last state all_done]
  have t1: "timeUps g1 = timeUps g0"
    using r by (simp add: timeUps_def)
  have st: "stale (nextHandle g0) g3"
    using r q f by (auto simp: stale_def pending_def)
  have later: "\<not> pending (nextHandle g0) g' \<and> timeoutExpires (nextHandle g0) g' = Inr g'"
    if "run es g3 = Inr g'" for es g'
  proof -
    from run_stale [OF that st] have "\<not> pending (nextHandle g0) g'"
      by (simp add: stale_def)
    then show ?thesis by (simp add: timeoutExpires_not_pending)
  qed
  show ?thesis
    using r q f t1 st later by (simp add: stale_def)
qed

theorem fastestFingerTimeUp_once_on_early_completion_witness:
  "showHostRevealFastestFingerQuestionChoices quiz = Inr quiz_revealed
 \<and> submissions early quiz_revealed = Inr quiz_waiting
 \<and> currentSocketEvent quiz_waiting = Some ''showHostRevealFastestFingerQuestionChoices''
 \<and> pending 0 quiz_waiting
 \<and> contestantFastestFingerChoose quiz_waiting 2 \<lparr>choice = Some 1\<rparr> = Inr quiz_done
 \<and> currentSocketEvent quiz_done = Some ''fastestFingerTimeUp''
 \<and> timeUps quiz_done = 1
 \<and> \<not> pending 0 quiz_done
 \<and> timeoutExpires 0 quiz_done = Inr quiz_done"
proof -
  have a: "showHostRevealFastestFingerQuestionChoices quiz = Inr quiz_revealed"
    by (simp add: game_defs handler_defs)
  have b: "submissions early quiz_revealed = Inr quiz_waiting"
    by (simp add: game_defs handler_defs)
  have c: "currentSocketEvent quiz_waiting = Some ''showHostRevealFastestFingerQuestionChoices''"
    by (simp add: game_defs)
  have d: "contestantFastestFingerChoose quiz_waiting 2 \<lparr>choice = Some 1\<rparr> = Inr quiz_done"
    by (simp add: game_defs handler_defs)
  have e: "serverState quiz_done =
             Some (setShowHostStepDialog (Some (timeUpDialog studio_state))
                     (studio_state\<lparr>fastestFingerQuestion :=
                        Some (ranking\<lparr>revealedChoices :=
                                [Some ''Earth'', Some ''Mars'', Some ''Mercury'', Some ''Venus''],
                              answerClockStarted := True\<rparr>)\<rparr>))"
    by (simp add: quiz_done_def quiz_waiting_def quiz_revealed_def)
  have f: "allPlayersDoneWithFastestFinger
             (setShowHostStepDialog (Some (timeUpDialog studio_state))
                (studio_state\<lparr>fastestFingerQuestion :=
                   Some (ranking\<lparr>revealedChoices :=
                           [Some ''Earth'', Some ''Mars'', Some ''Mercury'', Some ''Venus''],
                         answerClockStarted := True\<rparr>)\<rparr>))
             (playerMap quiz_done)"
    by (simp add: game_defs handler_defs)
  have n: "nextHandle quiz = 0" and t: "timeUps quiz = 0"
    by (simp_all add: quiz_def studio_def timeUps_def)
  have "run [] quiz_done = Inr quiz_done" by simp
  with fastestFingerTimeUp_once_on_early_completion [OF a b c d e f] n t
  have "(0, Call_fastestFingerTimeUp, 10000) \<in> set (timeouts quiz_waiting)
      \<and> currentSocketEvent quiz_done = Some ''fastestFingerTimeUp'' \<and> timeUps quiz_done = 1
      \<and> \<not> pending 0 quiz_done \<and> timeoutExpires 0 quiz_done = Inr quiz_done"
    by (metis add_0)
  moreover from this have "pending 0 quiz_waiting"
    by (force simp: pending_def)
  ultimately show ?thesis
    using a b c d by blast
qed

end
